theory Spec2Isabelle
  imports Complex_Main
begin

section \<open>PSGNets decoding heads (psgnets/models/decoding.py)\<close>

text \<open>
  A shallow embedding of the decoder wrapper and of the three decoding heads of
  \<^verbatim>\<open>psgnets/models/decoding.py\<close>. Tensors are nested lists, one list level per
  axis; float32 values are idealised as real numbers. Calls into other modules
  (\<^verbatim>\<open>rendering\<close>, \<^verbatim>\<open>utils\<close>, \<^verbatim>\<open>shape_coding\<close>) appear as function parameters or as
  the values they returned, so that the definitions below follow lines of this file. The
  layout class \<^verbatim>\<open>DimensionDict\<close> is not part of the file: where a definition stands for
  one of its methods, its comment says so.
\<close>

subsection \<open>Python values, errors and slices\<close>

datatype error = AssertionError | KeyError | IndexError | ValueError | NotFinite

datatype pyval = PyNone | PyBool bool | PyInt int | PyFloat real | PyStr string

type_synonym kwargs = "string \<rightharpoonup> pyval"

text \<open>Python's slice bounds: a negative bound counts from the end, and every bound is
  clipped to the list.\<close>

definition slice_bound :: "int \<Rightarrow> nat \<Rightarrow> nat" where
  "slice_bound i n = (if i < 0 then nat (max (i + int n) 0) else min (nat i) n)"

text \<open>\<^verbatim>\<open>xs[a:b]\<close>\<close>

definition py_slice :: "int \<Rightarrow> int \<Rightarrow> 'a list \<Rightarrow> 'a list" where
  "py_slice a b xs =
     (let s = slice_bound a (length xs); e = slice_bound b (length xs)
      in take (e - s) (drop s xs))"

text \<open>\<^verbatim>\<open>xs[a:]\<close>\<close>

definition py_slice_from :: "int \<Rightarrow> 'a list \<Rightarrow> 'a list" where
  "py_slice_from a xs = drop (slice_bound a (length xs)) xs"

subsection \<open>The decoder wrapper (class Decoder)\<close>

text \<open>
  \<^verbatim>\<open>self.params\<close> holds the keyword arguments given at construction
  (\<^verbatim>\<open>**model_params\<close>, handed to the base class by \<^verbatim>\<open>__init__\<close>).
\<close>

record decoder =
  name :: string
  input_signature :: "string list"
  params :: kwargs

definition Decoder_init :: "string \<Rightarrow> string list \<Rightarrow> kwargs \<Rightarrow> decoder" where
  "Decoder_init nm sig model_params =
     \<lparr>name = nm, input_signature = sig, params = model_params\<rparr>"

text \<open>
  \<^verbatim>\<open>build_inputs\<close>: one input per signature item, looked up through the mapping. The
  assertion fails when a signature item is not a key of the mapping; a mapped key that
  is missing from the inputs is a KeyError.
\<close>

fun lookup_all :: "(string \<rightharpoonup> 'v) \<Rightarrow> (string \<rightharpoonup> string) \<Rightarrow> string list \<Rightarrow> error + 'v list" where
  "lookup_all inputs input_mapping [] = Inr []"
| "lookup_all inputs input_mapping (nm # nms) =
     (case input_mapping nm of
        None \<Rightarrow> Inl KeyError
      | Some k \<Rightarrow>
          (case inputs k of
             None \<Rightarrow> Inl KeyError
           | Some v \<Rightarrow>
               (case lookup_all inputs input_mapping nms of
                  Inl e \<Rightarrow> Inl e
                | Inr vs \<Rightarrow> Inr (v # vs))))"

definition build_inputs ::
  "decoder \<Rightarrow> (string \<rightharpoonup> 'v) \<Rightarrow> (string \<rightharpoonup> string) \<Rightarrow> error + 'v list" where
  "build_inputs self inputs input_mapping =
     (if list_all (\<lambda>v. v \<in> dom input_mapping) (input_signature self)
      then lookup_all inputs input_mapping (input_signature self)
      else Inl AssertionError)"

definition rename_outputs :: "decoder \<Rightarrow> (string \<times> 'o) list \<Rightarrow> (string \<times> 'o) list" where
  "rename_outputs self outputs = map (\<lambda>(k, v). (name self @ ''/'' @ k, v)) outputs"

text \<open>
  \<^verbatim>\<open>build_model\<close> wraps the head function: the keyword arguments of the call are
  updated with \<^verbatim>\<open>self.params\<close> (\<^verbatim>\<open>dict.update\<close>: the argument's entries win), and the
  head runs on the result.
\<close>

definition call_params :: "decoder \<Rightarrow> kwargs \<Rightarrow> kwargs" where
  "call_params self kw = kw ++ params self"

definition build_model ::
  "decoder \<Rightarrow> ('args \<Rightarrow> kwargs \<Rightarrow> 'out) \<Rightarrow> 'args \<Rightarrow> kwargs \<Rightarrow> 'out" where
  "build_model self func = (\<lambda>args kw. func args (call_params self kw))"

text \<open>A head returns a dictionary of outputs or a single tensor.\<close>

datatype 'o head_out = OutDict "(string \<times> 'o) list" | OutTensor 'o

text \<open>
  \<^verbatim>\<open>__call__\<close>. \<^verbatim>\<open>reshape_batch_time\<close> belongs to the base class; its two uses are
  the parameters \<open>merge\<close> and \<open>unmerge\<close>. \<open>func\<close> is the head function that
  \<^verbatim>\<open>build_model\<close> wrapped into \<^verbatim>\<open>self.model_func\<close>; the argument \<^verbatim>\<open>rename\<close> is never
  read.
\<close>

definition Decoder_call ::
  "decoder \<Rightarrow> ('v list \<Rightarrow> kwargs \<Rightarrow> 'o head_out) \<Rightarrow>
   ('v list \<Rightarrow> kwargs \<Rightarrow> 'v list) \<Rightarrow> ((string \<times> 'o) list \<Rightarrow> kwargs \<Rightarrow> (string \<times> 'o) list) \<Rightarrow>
   (string \<rightharpoonup> 'v) \<Rightarrow> bool \<Rightarrow> (string \<rightharpoonup> string) \<Rightarrow> kwargs \<Rightarrow>
   error + (string \<times> 'o) list" where
  "Decoder_call self func merge unmerge inputs train input_mapping kw =
     (let kw1 = kw(''train'' \<mapsto> PyBool train) in
      case build_inputs self inputs input_mapping of
        Inl e \<Rightarrow> Inl e
      | Inr decoder_inputs \<Rightarrow>
          (let decoder_inputs1 = merge decoder_inputs kw1;
               outputs = build_model self func decoder_inputs1 kw1;
               outputs1 = (case outputs of OutDict d \<Rightarrow> d | OutTensor t \<Rightarrow> [(''outputs'', t)]);
               outputs2 = unmerge outputs1 kw1
           in Inr (rename_outputs self outputs2)))"

subsection \<open>future\_attribute\_decoder: the flow map\<close>

text \<open>Per-node flows have shape [B,T,N,2]; a dense flow field has shape [B,T,H,W,2], here
  a [B,T] table of frames.\<close>

type_synonym node_tensor = "real list list list list"
type_synonym frame = "real list list list"

definition first_or_nil :: "'a list list \<Rightarrow> 'a list" where
  "first_or_nil xs = (case xs of [] \<Rightarrow> [] | x # _ \<Rightarrow> x)"

text \<open>The static shape of a rank-4 tensor: the sizes of its four axes.\<close>

definition shape4 :: "'a list list list list \<Rightarrow> nat list" where
  "shape4 x =
     [length x, length (first_or_nil x), length (first_or_nil (first_or_nil x)),
      length (first_or_nil (first_or_nil (first_or_nil x)))]"

definition scale4 :: "real \<Rightarrow> node_tensor \<Rightarrow> node_tensor" where
  "scale4 c = map (map (map (map (\<lambda>x. c * x))))"

definition neg4 :: "node_tensor \<Rightarrow> node_tensor" where
  "neg4 = map (map (map (map uminus)))"

text \<open>
  Lines 244 to 249. \<open>nodes_flows\<close> is what \<^verbatim>\<open>Dims.get_attr_dims\<close> returned for
  \<^verbatim>\<open>flows_dims\<close>; \<open>get_back\<close> is the same lookup for \<^verbatim>\<open>back_flows_dims\<close>, run only
  when that argument is given.
\<close>

definition nodes_back_flows ::
  "('d \<Rightarrow> node_tensor) \<Rightarrow> node_tensor \<Rightarrow> 'd option \<Rightarrow> error + node_tensor" where
  "nodes_back_flows get_back nodes_flows back_flows_dims =
     (case back_flows_dims of
        Some bd \<Rightarrow>
          (let nbf = get_back bd
           in if shape4 nbf = shape4 nodes_flows then Inr nbf else Inl AssertionError)
      | None \<Rightarrow> Inr (scale4 (- 1) nodes_flows))"

definition neg_frame :: "frame \<Rightarrow> frame" where
  "neg_frame = map (map (map uminus))"

definition sub_frame :: "frame \<Rightarrow> frame \<Rightarrow> frame" where
  "sub_frame = map2 (map2 (map2 (\<lambda>x y. x - y)))"

definition scale_frame :: "real \<Rightarrow> frame \<Rightarrow> frame" where
  "scale_frame c = map (map (map (\<lambda>x. c * x)))"

text \<open>\<^verbatim>\<open>tf.concat([a, b, c], axis=1)\<close> on tensors that share the batch axis.\<close>

definition concat3_axis1 :: "'a list list \<Rightarrow> 'a list list \<Rightarrow> 'a list list \<Rightarrow> 'a list list" where
  "concat3_axis1 a b c = map2 (\<lambda>x (y, z). x @ y @ z) a (zip b c)"

text \<open>Lines 256 to 260: the combined flow field.\<close>

definition flows :: "frame list list \<Rightarrow> frame list list \<Rightarrow> frame list list" where
  "flows fwd_flows bck_flows =
     concat3_axis1
       (map (map neg_frame) (map (py_slice 0 1) bck_flows))
       (map (map (scale_frame 0.5))
          (map2 (map2 sub_frame)
             (map (py_slice 1 (- 1)) fwd_flows) (map (py_slice 1 (- 1)) bck_flows)))
       (map (py_slice_from (- 1)) fwd_flows)"

text \<open>
  The spec's wording of the interior rule, for comparison with \<open>flows\<close>: the average of
  the forward and the backward field.
\<close>

definition add_frame :: "frame \<Rightarrow> frame \<Rightarrow> frame" where
  "add_frame = map2 (map2 (map2 (\<lambda>x y. x + y)))"

definition avg_frame :: "frame \<Rightarrow> frame \<Rightarrow> frame" where
  "avg_frame f b = scale_frame 0.5 (add_frame f b)"

subsection \<open>shape\_decoder: from the resolved logits to the outputs\<close>

text \<open>A per-pixel map over nodes has shape [B,T,H,W,N].\<close>

type_synonym node_map = "real list list list list list"

definition map4 :: "('a \<Rightarrow> 'b) \<Rightarrow> 'a list list list list \<Rightarrow> 'b list list list list" where
  "map4 f = map (map (map (map f)))"

text \<open>
  \<^verbatim>\<open>tf.nn.softmax\<close> along the last axis, over the reals. In float32 an entry can
  underflow to 0; no statement below says that an entry is positive.
\<close>

definition softmax :: "real list \<Rightarrow> real list" where
  "softmax xs = map (\<lambda>x. exp x / sum_list (map exp xs)) xs"

text \<open>\<^verbatim>\<open>tf.reduce_max\<close> along the last axis (the value on an empty axis is never used).\<close>

definition reduce_max :: "real list \<Rightarrow> real" where
  "reduce_max xs = (case xs of [] \<Rightarrow> 0 | x # r \<Rightarrow> fold max r x)"

text \<open>\<^verbatim>\<open>tf.argmax\<close> along the last axis: the first index that holds the maximum.\<close>

fun argmax :: "real list \<Rightarrow> nat" where
  "argmax [] = 0"
| "argmax [x] = 0"
| "argmax (x # y # ys) = (let j = argmax (y # ys) in if x < (y # ys) ! j then Suc j else 0)"

text \<open>\<^verbatim>\<open>kwargs.get(key, default)\<close> for a numeric entry of the head's keyword arguments.\<close>

definition kwargs_get :: "real option \<Rightarrow> real \<Rightarrow> real" where
  "kwargs_get entry dflt = (case entry of None \<Rightarrow> dflt | Some v \<Rightarrow> v)"

text \<open>Lines 389 and 390: with \<^verbatim>\<open>zero_max\<close> the maximum over the nodes is subtracted.\<close>

definition shift_logits :: "bool \<Rightarrow> node_map \<Rightarrow> node_map" where
  "shift_logits zero_max shape_logits =
     (if zero_max then map4 (\<lambda>l. map (\<lambda>x. x - reduce_max l) l) shape_logits else shape_logits)"

text \<open>Line 391.\<close>

definition shape_probs :: "real option \<Rightarrow> node_map \<Rightarrow> node_map" where
  "shape_probs beta shape_logits =
     map4 (\<lambda>l. softmax (map (\<lambda>x. x * kwargs_get beta 1) l)) shape_logits"

text \<open>
  Lines 402 and 403: \<open>nodes_valid\<close> has shape [B,T,N,1]; it is tiled over the H by W
  pixels and reduced by the maximum over the nodes.
\<close>

definition shapes_valid :: "nat \<times> nat \<Rightarrow> real list list list list \<Rightarrow> real list list list list" where
  "shapes_valid imsize nodes_valid =
     (case imsize of (H, W) \<Rightarrow>
        map (map (\<lambda>v. replicate H (replicate W (reduce_max (concat v))))) nodes_valid)"

text \<open>
  An entry of \<^verbatim>\<open>attribute_dims_to_decode\<close> is a pair: a number of dimensions or a
  list of ranges, and a post-processing function or \<^verbatim>\<open>None\<close>.
\<close>

datatype dims0 = NDims int | Ranges "(int \<times> int) list"

definition ranges_of :: "dims0 \<Rightarrow> (int \<times> int) list" where
  "ranges_of d = (case d of NDims n \<Rightarrow> [(0, n)] | Ranges r \<Rightarrow> r)"

definition or_identity :: "('r \<Rightarrow> 'r) option \<Rightarrow> 'r \<Rightarrow> 'r" where
  "or_identity f = (case f of None \<Rightarrow> (\<lambda>x. x) | Some g \<Rightarrow> g)"

text \<open>The values of the dictionary \<^verbatim>\<open>decoded\<close>.\<close>

datatype ('c, 'r) outval =
  Probs node_map | Labels "nat list list list list" | Constraints 'c
  | Valid "real list list list list" | Rendered 'r

text \<open>
  The body of the loop of lines 405 to 412. \<^verbatim>\<open>Dims.get_attr_dims\<close> and
  \<^verbatim>\<open>rendering.render_attrs_from_segment_weights\<close> are the parameters \<open>get_attr_dims\<close>
  and \<open>render\<close>; \<^verbatim>\<open>tf.stop_gradient\<close> leaves values unchanged.
\<close>

definition render_attr ::
  "(string \<Rightarrow> (int \<times> int) list \<Rightarrow> 'na) \<Rightarrow> (node_map \<Rightarrow> 'na \<Rightarrow> (int \<times> int) list \<Rightarrow> 'r) \<Rightarrow>
   node_map \<Rightarrow> string \<Rightarrow> dims0 \<times> ('r \<Rightarrow> 'r) option \<Rightarrow> 'r" where
  "render_attr get_attr_dims render weights attr dims =
     (let ds = ranges_of (fst dims);
          nodes_attr = get_attr_dims attr ds;
          rend = render weights nodes_attr ds
      in or_identity (snd dims) rend)"

text \<open>
  Lines 388 to 414. \<open>resolved\<close> is what \<^verbatim>\<open>rendering.resolve_depth_order\<close> returned
  (lines 381 to 387), \<open>constraints\<close> what \<^verbatim>\<open>shape_coding.build_shape_from_codes\<close>
  returned. The result is the dictionary \<^verbatim>\<open>decoded\<close>.
\<close>

definition shape_decoder_outputs ::
  "(string \<Rightarrow> (int \<times> int) list \<Rightarrow> 'na) \<Rightarrow> (node_map \<Rightarrow> 'na \<Rightarrow> (int \<times> int) list \<Rightarrow> 'r) \<Rightarrow>
   'c \<Rightarrow> real list list list list \<Rightarrow> nat \<times> nat \<Rightarrow> node_map \<Rightarrow>
   bool \<Rightarrow> bool \<Rightarrow> real option \<Rightarrow> (string \<times> dims0 \<times> ('r \<Rightarrow> 'r) option) list \<Rightarrow>
   (string \<rightharpoonup> ('c, 'r) outval)" where
  "shape_decoder_outputs get_attr_dims render constraints nodes_valid imsize resolved
       train zero_max beta attribute_dims_to_decode =
     (let shape_logits = shift_logits zero_max resolved;
          probs = shape_probs beta shape_logits;
          decoded = [''shapes'' \<mapsto> (if train then Probs probs else Labels (map4 argmax probs)),
                     ''shape_logits'' \<mapsto>
                        (if train then Probs shape_logits else Labels (map4 argmax shape_logits)),
                     ''shape_constraints'' \<mapsto> Constraints constraints];
          decoded1 = decoded(''shapes_valid'' \<mapsto> Valid (shapes_valid imsize nodes_valid))
      in fold (\<lambda>(attr, dims) d. d(attr \<mapsto> Rendered (render_attr get_attr_dims render probs attr dims)))
           attribute_dims_to_decode decoded1)"

subsection \<open>spatial\_attribute\_decoder: decoding one sampled position\<close>

text \<open>Sequencing of steps that may raise.\<close>

definition ebind :: "error + 'a \<Rightarrow> ('a \<Rightarrow> error + 'b) \<Rightarrow> error + 'b" where
  "ebind m f = (case m of Inl e \<Rightarrow> Inl e | Inr x \<Rightarrow> f x)"

text \<open>
  An entry of \<^verbatim>\<open>attribute_dims_to_decode\<close>: the attribute's name, its number of
  dimensions and its post-processing function.
\<close>

type_synonym postproc = "real list \<Rightarrow> real list"
type_synonym pred_dims = "(string \<times> nat \<times> postproc) list"

text \<open>\<^verbatim>\<open>tf.nn.l2_normalize(n, axis=-1)\<close>, with TensorFlow's default epsilon.\<close>

definition l2_normalize :: postproc where
  "l2_normalize n = map (\<lambda>x. x / sqrt (max (sum_list (map (\<lambda>y. y * y) n)) (1 / 10 ^ 12))) n"

definition clip_by_value :: "real \<Rightarrow> real \<Rightarrow> postproc" where
  "clip_by_value lo hi = map (\<lambda>x. max lo (min x hi))"

text \<open>Lines 24 to 28. \<^verbatim>\<open>preproc_hsv\<close> comes from the preprocessing module: a parameter.\<close>

definition DEFAULT_PRED_DIMS :: "postproc \<Rightarrow> pred_dims" where
  "DEFAULT_PRED_DIMS preproc_hsv =
     [(''pred_depths'', 1, map (\<lambda>z. min z (- 0.1))),
      (''pred_images'', 3, \<lambda>im. clip_by_value (- 100) 100 (preproc_hsv im)),
      (''pred_normals'', 3, l2_normalize)]"

text \<open>Line 195: a dictionary lookup, a KeyError for any other method.\<close>

definition n_coeffs_per_dim :: "string \<Rightarrow> error + nat" where
  "n_coeffs_per_dim method =
     (if method = ''constant'' then Inr 0
      else if method = ''linear'' then Inr 2
      else if method = ''quadratic'' then Inr 5
      else Inl KeyError)"

text \<open>
  Modelled from the spec: \<^verbatim>\<open>DimensionDict.parse_dims\<close> is not in this file. Each
  attribute gets a slice of the latent vector that starts where the previous one ended
  and holds \<open>1 + k\<close> coefficients per dimension (the \<^verbatim>\<open>multiplier\<close> of line 200); the
  post-processing function is kept as the third component, where line 214 reads it.
\<close>

definition parse_dims :: "nat \<times> postproc \<Rightarrow> nat \<Rightarrow> nat \<Rightarrow> nat \<times> nat \<times> postproc" where
  "parse_dims dims start multiplier = (start, start + fst dims * multiplier, snd dims)"

text \<open>The loop of lines 198 to 202: the ranges of \<^verbatim>\<open>predDims\<close> and \<^verbatim>\<open>dims_used\<close>.\<close>

fun assign_dims :: "nat \<Rightarrow> nat \<Rightarrow> pred_dims \<Rightarrow> (string \<times> nat \<times> nat \<times> postproc) list \<times> nat" where
  "assign_dims multiplier dims_used [] = ([], dims_used)"
| "assign_dims multiplier dims_used ((attr, dims) # rest) =
     (let newdims = parse_dims dims dims_used multiplier;
          (more, total) = assign_dims multiplier (dims_used + (fst (snd newdims) - fst newdims)) rest
      in ((attr, newdims) # more, total))"

text \<open>
  Modelled from the spec: \<^verbatim>\<open>DimensionDict.get_tensor_from_attrs\<close> with
  \<^verbatim>\<open>postproc=False\<close> is the slice of the last axis that the layout names.
\<close>

definition get_tensor_from_attrs :: "(string \<times> nat \<times> nat \<times> postproc) list \<Rightarrow> real list \<Rightarrow> string \<Rightarrow> error + real list" where
  "get_tensor_from_attrs dims vec attr =
     (case map_of dims attr of
        None \<Rightarrow> Inl KeyError
      | Some (s, e, f) \<Rightarrow> Inr (take (e - s) (drop s vec)))"

text \<open>\<^verbatim>\<open>tf.split(value, num, axis=-1)\<close>: \<open>num\<close> pieces of equal size, an error when the
  axis does not divide.\<close>

definition tf_split :: "real list \<Rightarrow> nat \<Rightarrow> error + real list list" where
  "tf_split v num =
     (if 0 < num \<and> length v mod num = 0
      then Inr (map (\<lambda>i. take (length v div num) (drop (i * (length v div num)) v)) [0..<num])
      else Inl ValueError)"

text \<open>\<^verbatim>\<open>tf.add_n\<close>: the elementwise sum of a list of vectors.\<close>

fun add_n :: "real list list \<Rightarrow> real list" where
  "add_n [] = []"
| "add_n [v] = v"
| "add_n (v # vs) = map2 (\<lambda>x y. x + y) v (add_n vs)"

text \<open>
  \<^verbatim>\<open>tf.gather_nd\<close> at one sampled position: the indices are (b, t, segment), with b and
  t the position's own, so the lookup is that of the segment among the nodes of (b, t).
  An index out of range is an error (the CPU kernel's behaviour).
\<close>

definition gather_node :: "'a list \<Rightarrow> int \<Rightarrow> error + 'a" where
  "gather_node nodes n =
     (if 0 \<le> n \<and> nat n < length nodes then Inr (nodes ! nat n) else Inl IndexError)"

text \<open>Elementwise product with broadcasting along the last axis.\<close>

definition bcast_mul :: "real list \<Rightarrow> real list \<Rightarrow> error + real list" where
  "bcast_mul xs ys =
     (if length xs = length ys then Inr (map2 (\<lambda>x y. x * y) xs ys)
      else if length ys = 1 then Inr (map (\<lambda>x. x * ys ! 0) xs)
      else if length xs = 1 then Inr (map (\<lambda>y. xs ! 0 * y) ys)
      else Inl ValueError)"

text \<open>
  A float32 value that may fail to be finite: \<open>None\<close> stands for a NaN or an infinity,
  which the real numbers do not have. A product with such a value is such a value.
\<close>

definition fmul :: "real option \<Rightarrow> real option \<Rightarrow> real option" where
  "fmul x y = (case (x, y) of (Some a, Some b) \<Rightarrow> Some (a * b) | _ \<Rightarrow> None)"

text \<open>
  Lines 183 to 186 and 188 for one coordinate: the sampled index divided by
  \<open>(H - 1) / 2\<close>, minus 1, minus the centroid. With \<open>H = 1\<close> the divisor is 0 and the
  float32 quotient is a NaN or an infinity.
\<close>

definition offset :: "nat \<Rightarrow> int \<Rightarrow> real \<Rightarrow> real option" where
  "offset H h c =
     (if (real H - 1) / 2 = 0 then None
      else Some (- 1 + real_of_int h / ((real H - 1) / 2) - c))"

text \<open>
  Lines 183 to 188: the sampled position in [-1, 1] coordinates, minus the centroid of
  the owning node, split into its two components.
\<close>

definition offsets :: "nat \<Rightarrow> nat \<Rightarrow> int list \<Rightarrow> real list \<Rightarrow> error + real option \<times> real option" where
  "offsets H W inds centroid =
     (case (inds, centroid) of
        ([h, w], [ch, cw]) \<Rightarrow> Inr (offset H h ch, offset W w cw)
      | _ \<Rightarrow> Inl ValueError)"

text \<open>Line 209.\<close>

definition deltas :: "string \<Rightarrow> real option \<Rightarrow> real option \<Rightarrow> real option list" where
  "deltas method dH dW =
     [Some 1] @ (if method \<noteq> ''constant'' then [dH, dW] else [])
              @ (if method = ''quadratic'' then [fmul dH dH, fmul dH dW, fmul dW dW] else [])"

text \<open>
  The predictions of line 215 are finite only if every factor of line 209 is: a factor
  that is not finite makes each prediction of the position a NaN, which the model
  reports as \<open>NotFinite\<close>.
\<close>

definition finite_deltas :: "real option list \<Rightarrow> error + real list" where
  "finite_deltas dl = (case those dl of None \<Rightarrow> Inl NotFinite | Some ds \<Rightarrow> Inr ds)"

text \<open>The body of the loop of lines 210 to 215.\<close>

definition render_attr_at ::
  "(string \<times> nat \<times> nat \<times> postproc) list \<Rightarrow> nat \<Rightarrow> real list \<Rightarrow> real list \<Rightarrow> string \<Rightarrow>
   error + real list" where
  "render_attr_at predDims n_coeffs dl latent_vector attr =
     ebind (get_tensor_from_attrs predDims latent_vector attr) (\<lambda>attr_vec.
     ebind (tf_split attr_vec (1 + n_coeffs)) (\<lambda>pieces.
     case map_of predDims attr of
       None \<Rightarrow> Inl KeyError
     | Some (s, e, func) \<Rightarrow>
         Inr (func (add_n (map2 (\<lambda>av d. map (\<lambda>x. x * d) av) pieces dl)))))"

fun render_attrs_at ::
  "(string \<times> nat \<times> nat \<times> postproc) list \<Rightarrow> nat \<Rightarrow> real list \<Rightarrow> real list \<Rightarrow> string list \<Rightarrow>
   error + (string \<times> real list) list" where
  "render_attrs_at predDims n_coeffs dl latent_vector [] = Inr []"
| "render_attrs_at predDims n_coeffs dl latent_vector (attr # attrs) =
     ebind (render_attr_at predDims n_coeffs dl latent_vector attr) (\<lambda>v.
     ebind (render_attrs_at predDims n_coeffs dl latent_vector attrs) (\<lambda>vs.
     Inr ((attr, v) # vs)))"

text \<open>The three outputs at one sampled position.\<close>

record sample_out =
  sampled_hw_inds :: "int list"
  sampled_pred_attrs :: "(string \<times> real list) list"
  sampled_valid_attrs :: "real list"

text \<open>
  Lines 183 to 221 at one sampled position (b, t, p): every operation there acts
  pointwise on the [B,T,P] axes. \<open>node_hws\<close>, \<open>latent_vec\<close> and \<open>valid_nodes\<close> are the
  [N,.] tables of (b, t); \<open>spatial_inds\<close>, \<open>segment\<close> and \<open>valid_segment\<close> are the sampled
  pixel, its normalised segment id and the validity of that segment, as
  \<^verbatim>\<open>sample_image_inds\<close>, \<^verbatim>\<open>preproc_segment_ids\<close> and
  \<^verbatim>\<open>get_image_values_from_indices\<close> returned them.
\<close>

definition decode_sample ::
  "string \<Rightarrow> pred_dims \<Rightarrow> nat \<Rightarrow> nat \<Rightarrow>
   real list list \<Rightarrow> real list list \<Rightarrow> real list list \<Rightarrow>
   int list \<Rightarrow> int \<Rightarrow> real list \<Rightarrow> error + sample_out" where
  "decode_sample method attribute_dims_to_decode H W node_hws latent_vec valid_nodes
       spatial_inds segment valid_segment =
     ebind (gather_node node_hws segment) (\<lambda>centroid.
     ebind (offsets H W spatial_inds centroid) (\<lambda>(dH, dW).
     ebind (gather_node valid_nodes segment) (\<lambda>valid_node.
     ebind (bcast_mul valid_node valid_segment) (\<lambda>valid_vector.
     ebind (gather_node latent_vec segment) (\<lambda>latent.
     ebind (bcast_mul latent valid_vector) (\<lambda>latent_vector.
     ebind (n_coeffs_per_dim method) (\<lambda>n_coeffs.
       (let predDims = fst (assign_dims (1 + n_coeffs) 0 attribute_dims_to_decode)
        in ebind (finite_deltas (deltas method dH dW)) (\<lambda>dl.
           ebind (render_attrs_at predDims n_coeffs dl latent_vector
                    (map fst attribute_dims_to_decode)) (\<lambda>attrs.
           Inr \<lparr>sampled_hw_inds = spatial_inds, sampled_pred_attrs = attrs,
                sampled_valid_attrs = valid_vector\<rparr>))))))))))"

subsection \<open>The attribute layout and what the heads register in it\<close>

text \<open>
  Modelled from the spec: the class \<^verbatim>\<open>DimensionDict\<close> (the layout) is not in this file.
  A layout is an ordered mapping from names to half-open ranges \<open>[start, end)\<close> of the
  node vector's last axis, kept sorted by start and non-overlapping.
\<close>

type_synonym layout = "(string \<times> int \<times> int) list"

definition range_start :: "string \<times> int \<times> int \<Rightarrow> int" where
  "range_start entry = fst (snd entry)"

text \<open>Modelled from the spec: \<^verbatim>\<open>Dims[name]\<close>, a KeyError for a name the layout lacks.\<close>

definition layout_get :: "layout \<Rightarrow> string \<Rightarrow> error + int \<times> int" where
  "layout_get Dims nm = (case map_of Dims nm of None \<Rightarrow> Inl KeyError | Some r \<Rightarrow> Inr r)"


definition overlap :: "int \<times> int \<Rightarrow> int \<times> int \<Rightarrow> bool" where
  "overlap r1 r2 = (max (fst r1) (fst r2) < min (snd r1) (snd r2))"



text \<open>
  Modelled from the spec: \<^verbatim>\<open>Dims[name] = range\<close>. The spec has the layout
  ``preserve [the] disjointness invariant'' and makes ``inserting an existing name an
  error'': an existing name is refused, a range that overlaps an existing range is
  refused, and a new entry goes to its sorted position.
\<close>

definition layout_insert :: "string \<Rightarrow> int \<times> int \<Rightarrow> layout \<Rightarrow> error + layout" where
  "layout_insert nm rng Dims =
     (if nm \<in> fst ` set Dims then Inl ValueError
      else if list_ex (\<lambda>y. overlap rng (snd y)) Dims then Inl ValueError
      else Inr (insort_key range_start (nm, rng) Dims))"


text \<open>
  The heads are handed the layout object and change it in place. Insertions one after
  the other: the first error ends them, and the entries inserted before it stay. The
  result is the layout that is left and the error raised, if any.
\<close>

fun run_inserts :: "layout \<Rightarrow> layout \<Rightarrow> layout \<times> error option" where
  "run_inserts [] Dims = (Dims, None)"
| "run_inserts ((nm, rng) # rest) Dims =
     (case layout_insert nm rng Dims of
        Inl e \<Rightarrow> (Dims, Some e)
      | Inr Dims' \<Rightarrow> run_inserts rest Dims')"



text \<open>
  future\_attribute\_decoder, lines 269 and 270: the range of \<^verbatim>\<open>depths_dims[0]\<close> is read,
  and \<^verbatim>\<open>pred_depths\<close> is assigned the first range of \<^verbatim>\<open>depths_dims[1]\<close> shifted by
  its start. The result is the layout the call leaves and the error it raised, if any.
\<close>

definition register_pred_depths ::
  "layout \<Rightarrow> string \<times> (int \<times> int) list \<Rightarrow> layout \<times> error option" where
  "register_pred_depths Dims depths_dims =
     (case layout_get Dims (fst depths_dims) of
        Inl e \<Rightarrow> (Dims, Some e)
      | Inr ddims \<Rightarrow>
          (case snd depths_dims of
             [] \<Rightarrow> (Dims, Some IndexError)
           | r # _ \<Rightarrow> run_inserts [(''pred_depths'', fst ddims + fst r, fst ddims + snd r)] Dims))"

text \<open>The default of the parameter \<^verbatim>\<open>depths_dims\<close> (line 228).\<close>

definition DEFAULT_DEPTHS_DIMS :: "string \<times> (int \<times> int) list" where
  "DEFAULT_DEPTHS_DIMS = (''pred_depths'', [(0, 1)])"




text \<open>Line 165: the number of sampled positions.\<close>

definition num_samples :: "int \<Rightarrow> int \<Rightarrow> int \<Rightarrow> int" where
  "num_samples num_sample_points H W = min num_sample_points (H * W)"

section \<open>Properties\<close>

lemma slice_bound_simps:
  "slice_bound 0 n = 0" "slice_bound 1 n = min 1 n" "slice_bound (- 1) n = n - 1"
  by (auto simp: slice_bound_def)

subsection \<open>The combined flow field\<close>

lemma flows_at_batch:
  assumes "length fwd = length bck" "b < length fwd" 
  shows "flows fwd bck ! b =
           map neg_frame (take 1 (bck ! b)) @
           map (scale_frame 0.5)
             (map2 sub_frame (py_slice 1 (- 1) (fwd ! b)) (py_slice 1 (- 1) (bck ! b))) @
           py_slice_from (- 1) (fwd ! b)"
  using assms
  by (simp add: flows_def concat3_axis1_def py_slice_def py_slice_from_def
      slice_bound_simps Let_def min_def)

text \<open>With a single time step the three slices give two: the rules below need two steps.\<close>

lemma flows_single_step: "flows [[f]] [[b]] = [[neg_frame b, f]]"
  by (simp add: flows_def concat3_axis1_def py_slice_def py_slice_from_def slice_bound_def)

text \<open>
  C1 (as the code has it). For a sequence of T time steps, T at least 2, the combined
  flow field has T time steps; the first is the negated backward field, the last is the
  forward field, and every interior step is half the difference of the forward and the
  backward field, that is the average of the forward and the negated backward field.
\<close>

theorem flows_boundary_rules:
  assumes "length fwd = length bck" and "b < length fwd"
    and "length (fwd ! b) = T" and "length (bck ! b) = T" and "2 \<le> T"
  shows "length (flows fwd bck ! b) = T \<and>
         flows fwd bck ! b ! 0 = neg_frame (bck ! b ! 0) \<and>
         flows fwd bck ! b ! (T - 1) = fwd ! b ! (T - 1) \<and>
         (\<forall>t. 0 < t \<and> t < T - 1 \<longrightarrow>
            flows fwd bck ! b ! t = scale_frame 0.5 (sub_frame (fwd ! b ! t) (bck ! b ! t)))"
proof -
  note fb = flows_at_batch [OF assms(1,2)]
  have len: "length (flows fwd bck ! b) = T"
    using assms(3-5) by (simp add: fb py_slice_def py_slice_from_def slice_bound_simps Let_def)
  have first: "flows fwd bck ! b ! 0 = neg_frame (bck ! b ! 0)"
    using assms(3-5) by (simp add: fb nth_append take_Suc_conv_app_nth)
  have last: "flows fwd bck ! b ! (T - 1) = fwd ! b ! (T - 1)"
    using assms(3-5)
    by (simp add: fb nth_append py_slice_def py_slice_from_def slice_bound_simps Let_def)
  have mid: "flows fwd bck ! b ! t = scale_frame 0.5 (sub_frame (fwd ! b ! t) (bck ! b ! t))"
    if "0 < t" "t < T - 1" for t
  proof -
    have "t - Suc 0 < T - Suc (Suc 0)" using that by arith
    then show ?thesis
      using assms(3-5) that
      by (simp add: fb nth_append py_slice_def py_slice_from_def slice_bound_simps Let_def)
  qed
  from len first last mid show ?thesis by blast
qed

theorem flows_boundary_rules_witness:
  "length (flows [[ [[[1, 2]]], [[[3, 4]]], [[[5, 6]]] ]] [[ [[[10, 20]]], [[[30, 40]]], [[[50, 60]]] ]] ! 0) = 3 \<and>
   flows [[ [[[1, 2]]], [[[3, 4]]], [[[5, 6]]] ]] [[ [[[10, 20]]], [[[30, 40]]], [[[50, 60]]] ]] ! 0 ! 0 = [[[- 10, - 20]]] \<and>
   flows [[ [[[1, 2]]], [[[3, 4]]], [[[5, 6]]] ]] [[ [[[10, 20]]], [[[30, 40]]], [[[50, 60]]] ]] ! 0 ! 2 = [[[5, 6]]] \<and>
   flows [[ [[[1, 2]]], [[[3, 4]]], [[[5, 6]]] ]] [[ [[[10, 20]]], [[[30, 40]]], [[[50, 60]]] ]] ! 0 ! 1 = [[[- 27 / 2, - 18]]]"
  using flows_boundary_rules [of "[[ [[[1, 2]]], [[[3, 4]]], [[[5, 6]]] ]]"
      "[[ [[[10, 20]]], [[[30, 40]]], [[[50, 60]]] ]]" 0 3]
  by (simp add: neg_frame_def scale_frame_def sub_frame_def)

text \<open>
  The interior step is not the average of the forward and the backward field: with
  forward (3, 4) and backward (30, 40) the code gives (-27/2, -18), the average is
  (33/2, 22).
\<close>

theorem flows_interior_average_counterexample:
  "flows [[ [[[1, 2]]], [[[3, 4]]], [[[5, 6]]] ]] [[ [[[10, 20]]], [[[30, 40]]], [[[50, 60]]] ]] ! 0 ! 1
     \<noteq> avg_frame [[[3, 4]]] [[[30, 40]]]"
  by (simp add: flows_def concat3_axis1_def py_slice_def py_slice_from_def slice_bound_def
      neg_frame_def scale_frame_def sub_frame_def avg_frame_def add_frame_def)

subsection \<open>The per-node backward flow\<close>

text \<open>
  C8. Without \<^verbatim>\<open>back_flows_dims\<close> the per-node backward flow is the negation of the
  per-node forward flow. With it, a backward flow whose shape differs from the forward
  flow's fails the assertion of line 247, and one of the same shape is used as it is.
\<close>

theorem nodes_back_flows_rule:
  "nodes_back_flows get_back nodes_flows None = Inr (neg4 nodes_flows) \<and>
   (shape4 (get_back bd) \<noteq> shape4 nodes_flows \<longrightarrow>
      nodes_back_flows get_back nodes_flows (Some bd) = Inl AssertionError) \<and>
   (shape4 (get_back bd) = shape4 nodes_flows \<longrightarrow>
      nodes_back_flows get_back nodes_flows (Some bd) = Inr (get_back bd))"
  by (simp add: nodes_back_flows_def scale4_def neg4_def)

theorem nodes_back_flows_rule_witness:
  "nodes_back_flows (\<lambda>d. [[[[7, 8, 9]]]]) [[[[1, - 2]]]] None = Inr [[[[- 1, 2]]]] \<and>
   shape4 [[[[7, 8, 9 :: real]]]] \<noteq> shape4 [[[[1, - 2 :: real]]]] \<and>
   nodes_back_flows (\<lambda>d. [[[[7, 8, 9]]]]) [[[[1, - 2]]]] (Some ()) = Inl AssertionError \<and>
   shape4 [[[[7, 8 :: real]]]] = shape4 [[[[1, - 2 :: real]]]] \<and>
   nodes_back_flows (\<lambda>d. [[[[7, 8]]]]) [[[[1, - 2]]]] (Some ()) = Inr [[[[7, 8]]]]"
  using nodes_back_flows_rule [of "\<lambda>d. [[[[7, 8, 9]]]]" "[[[[1, - 2]]]]" "()"]
    nodes_back_flows_rule [of "\<lambda>d. [[[[7, 8]]]]" "[[[[1, - 2]]]]" "()"]
  by (simp add: shape4_def first_or_nil_def neg4_def nodes_back_flows_def scale4_def)

subsection \<open>Construction-time parameters win over call-time ones\<close>

text \<open>
  C10. The head function runs on the call's keyword arguments updated with
  \<^verbatim>\<open>self.params\<close>: on every key of \<^verbatim>\<open>self.params\<close> the construction-time value is
  what the head sees, other keys keep the call's value, and this holds for
  \<^verbatim>\<open>train\<close>, which \<^verbatim>\<open>__call__\<close> stores among the keyword arguments before the head
  runs.
\<close>

theorem call_params_override:
  "(\<forall>k \<in> dom (params self). call_params self kw k = params self k) \<and>
   (\<forall>k. k \<notin> dom (params self) \<longrightarrow> call_params self kw k = kw k) \<and>
   build_model self func args kw = func args (call_params self kw) \<and>
   (\<forall>v. params self ''train'' = Some v \<longrightarrow>
      call_params self (kw(''train'' \<mapsto> PyBool train)) ''train'' = Some v) \<and>
   (\<forall>ins. build_inputs self inputs input_mapping = Inr ins \<longrightarrow>
      Decoder_call self func merge unmerge inputs train input_mapping kw =
        Inr (rename_outputs self
          (unmerge
            (case func (merge ins (kw(''train'' \<mapsto> PyBool train)))
                    (call_params self (kw(''train'' \<mapsto> PyBool train))) of
               OutDict d \<Rightarrow> d | OutTensor t \<Rightarrow> [(''outputs'', t)])
            (kw(''train'' \<mapsto> PyBool train)))))"
  by (auto simp: call_params_def build_model_def Decoder_call_def map_add_def Let_def
      split: option.splits)

theorem call_params_override_witness:
  "''train'' \<in> dom (params (Decoder_init ''qtr'' [''nodes''] [''train'' \<mapsto> PyBool False, ''method'' \<mapsto> PyStr ''constant''])) \<and>
   call_params (Decoder_init ''qtr'' [''nodes''] [''train'' \<mapsto> PyBool False, ''method'' \<mapsto> PyStr ''constant''])
     ([''method'' \<mapsto> PyStr ''linear'', ''beta'' \<mapsto> PyFloat 2](''train'' \<mapsto> PyBool True)) ''train'' = Some (PyBool False) \<and>
   call_params (Decoder_init ''qtr'' [''nodes''] [''train'' \<mapsto> PyBool False, ''method'' \<mapsto> PyStr ''constant''])
     ([''method'' \<mapsto> PyStr ''linear'', ''beta'' \<mapsto> PyFloat 2](''train'' \<mapsto> PyBool True)) ''beta'' = Some (PyFloat 2) \<and>
   build_inputs (Decoder_init ''qtr'' [''nodes''] [''train'' \<mapsto> PyBool False, ''method'' \<mapsto> PyStr ''constant''])
     [''features/outputs'' \<mapsto> (5::nat)] [''nodes'' \<mapsto> ''features/outputs''] = Inr [5] \<and>
   Decoder_call (Decoder_init ''qtr'' [''nodes''] [''train'' \<mapsto> PyBool False, ''method'' \<mapsto> PyStr ''constant''])
     (\<lambda>args cp. OutDict [(''seen'', (cp ''train'', cp ''method''))]) (\<lambda>x k. x) (\<lambda>x k. x)
     [''features/outputs'' \<mapsto> (5::nat)] True [''nodes'' \<mapsto> ''features/outputs'']
     [''method'' \<mapsto> PyStr ''linear'', ''beta'' \<mapsto> PyFloat 2]
   = Inr [(''qtr/seen'', (Some (PyBool False), Some (PyStr ''constant'')))]"
proof -
  let ?D = "Decoder_init ''qtr'' [''nodes''] [''train'' \<mapsto> PyBool False, ''method'' \<mapsto> PyStr ''constant'']"
  let ?kw = "[''method'' \<mapsto> PyStr ''linear'', ''beta'' \<mapsto> PyFloat 2]"
  have tr: "params ?D ''train'' = Some (PyBool False)"
    by (simp add: Decoder_init_def)
  have be: "''beta'' \<notin> dom (params ?D)"
    by (simp add: Decoder_init_def)
  have bi: "build_inputs ?D [''features/outputs'' \<mapsto> (5::nat)] [''nodes'' \<mapsto> ''features/outputs''] = Inr [5]"
    by (simp add: build_inputs_def Decoder_init_def)
  note th = call_params_override [where self = ?D and kw = ?kw and train = True
      and func = "\<lambda>args cp. OutDict [(''seen'', (cp ''train'', cp ''method''))]"
      and inputs = "[''features/outputs'' \<mapsto> (5::nat)]"
      and input_mapping = "[''nodes'' \<mapsto> ''features/outputs'']"
      and merge = "\<lambda>x k. x" and unmerge = "\<lambda>x k. x"]
  note th1 = call_params_override [where self = ?D and kw = "?kw(''train'' \<mapsto> PyBool True)"]
  have c1: "call_params ?D (?kw(''train'' \<mapsto> PyBool True)) ''train'' = Some (PyBool False)"
    using th [THEN conjunct2, THEN conjunct2, THEN conjunct2, THEN conjunct1, rule_format, OF tr] .
  have c2: "call_params ?D (?kw(''train'' \<mapsto> PyBool True)) ''beta'' = Some (PyFloat 2)"
    using th1 [THEN conjunct2, THEN conjunct1, rule_format, OF be] by simp
  have c3: "call_params ?D (?kw(''train'' \<mapsto> PyBool True)) ''method'' = Some (PyStr ''constant'')"
    using th1 [THEN conjunct1, rule_format, of "''method''"] by (simp add: Decoder_init_def)
  have c4: "Decoder_call ?D
     (\<lambda>args cp. OutDict [(''seen'', (cp ''train'', cp ''method''))]) (\<lambda>x k. x) (\<lambda>x k. x)
     [''features/outputs'' \<mapsto> (5::nat)] True [''nodes'' \<mapsto> ''features/outputs''] ?kw
   = Inr [(''qtr/seen'', (Some (PyBool False), Some (PyStr ''constant'')))]"
    using th [THEN conjunct2, THEN conjunct2, THEN conjunct2, THEN conjunct2, rule_format, OF bi]
      c1 c3
    by (simp add: rename_outputs_def Decoder_init_def)
  from tr c1 c2 bi c4 show ?thesis by (simp add: domI)
qed

subsection \<open>The shape distribution\<close>

lemma sum_exp_pos: "xs \<noteq> [] \<Longrightarrow> 0 < sum_list (map exp (xs :: real list))"
proof (cases xs)
  case (Cons a list)
  have "0 \<le> sum_list (map exp list)"
    by (rule sum_list_nonneg) auto
  with Cons show ?thesis by (simp add: add_pos_nonneg)
qed simp

lemma sum_list_divide: "sum_list (map (\<lambda>x. f x / c) xs) = sum_list (map f xs) / (c :: real)"
  by (induction xs) (simp_all add: add_divide_distrib)

lemma sum_softmax: "xs \<noteq> [] \<Longrightarrow> sum_list (softmax xs) = 1"
  using sum_exp_pos [of xs] by (simp add: softmax_def sum_list_divide)



lemma argmax_first: "j < argmax xs \<Longrightarrow> xs ! j < xs ! argmax xs"
proof (induction xs arbitrary: j rule: argmax.induct)
  case (3 x y ys)
  show ?case
  proof (cases j)
    case 0
    with 3 show ?thesis by (auto simp: Let_def split: if_splits)
  next
    case (Suc k)
    with 3 show ?thesis by (auto simp: Let_def split: if_splits)
  qed
qed simp_all

lemma map4_nth:
  "b < length x \<Longrightarrow> t < length (x ! b) \<Longrightarrow> h < length (x ! b ! t) \<Longrightarrow>
   w < length (x ! b ! t ! h) \<Longrightarrow> map4 f x ! b ! t ! h ! w = f (x ! b ! t ! h ! w)"
  by (simp add: map4_def)

lemma fold_upd_other:
  "k \<notin> fst ` set xs \<Longrightarrow> fold (\<lambda>(a, d) m. m(a \<mapsto> f a d)) xs m0 k = m0 k"
  by (induction xs arbitrary: m0) (auto)


lemma shift_logits_nth_length:
  "b < length L \<Longrightarrow> t < length (L ! b) \<Longrightarrow> h < length (L ! b ! t) \<Longrightarrow>
   w < length (L ! b ! t ! h) \<Longrightarrow>
   length (shift_logits zm L ! b ! t ! h ! w) = length (L ! b ! t ! h ! w)"
  by (simp add: shift_logits_def map4_def)

lemma shift_logits_lengths:
  "length (shift_logits zm L) = length L"
  "b < length L \<Longrightarrow> length (shift_logits zm L ! b) = length (L ! b)"
  "b < length L \<Longrightarrow> t < length (L ! b) \<Longrightarrow>
     length (shift_logits zm L ! b ! t) = length (L ! b ! t)"
  "b < length L \<Longrightarrow> t < length (L ! b) \<Longrightarrow> h < length (L ! b ! t) \<Longrightarrow>
     length (shift_logits zm L ! b ! t ! h) = length (L ! b ! t ! h)"
  by (simp_all add: shift_logits_def map4_def)

lemma shape_probs_nth:
  assumes "b < length L" "t < length (L ! b)" "h < length (L ! b ! t)" "w < length (L ! b ! t ! h)"
  shows "shape_probs beta (shift_logits zm L) ! b ! t ! h ! w =
           softmax (map (\<lambda>x. x * (case beta of None \<Rightarrow> 1 | Some c \<Rightarrow> c))
                      (shift_logits zm L ! b ! t ! h ! w))"
proof -
  have "shape_probs beta (shift_logits zm L) ! b ! t ! h ! w =
           softmax (map (\<lambda>x. x * kwargs_get beta 1) (shift_logits zm L ! b ! t ! h ! w))"
    using assms unfolding shape_probs_def
    by (intro map4_nth) (simp_all add: shift_logits_lengths)
  then show ?thesis by (simp add: kwargs_get_def)
qed

lemma outputs_shapes:
  assumes "''shapes'' \<notin> fst ` set attrs"
  shows "shape_decoder_outputs g r c nv sz L train zm beta attrs ''shapes'' =
           Some (if train then Probs (shape_probs beta (shift_logits zm L))
                 else Labels (map4 argmax (shape_probs beta (shift_logits zm L))))"
  unfolding shape_decoder_outputs_def Let_def
  by (subst fold_upd_other [OF assms]) simp


text \<open>
  C2 (as the code has it). In training mode the \<^verbatim>\<open>shapes\<close> output is \<open>shape_probs\<close>,
  and at every pixel with a non-empty node axis \<open>shape_probs\<close> sums to 1 over the nodes,
  whatever \<open>nodes_valid\<close> is, so that it is not the zero vector: the softmax of line 391
  is not masked by validity.
\<close>

theorem shape_probs_sum_one:
  assumes "b < length L" and "t < length (L ! b)" and "h < length (L ! b ! t)"
    and "w < length (L ! b ! t ! h)" and "L ! b ! t ! h ! w \<noteq> []"
    and "''shapes'' \<notin> fst ` set attrs"
  shows "shape_decoder_outputs g r c nodes_valid sz L True zm beta attrs ''shapes'' =
           Some (Probs (shape_probs beta (shift_logits zm L))) \<and>
         sum_list (shape_probs beta (shift_logits zm L) ! b ! t ! h ! w) = 1 \<and>
         shape_probs beta (shift_logits zm L) ! b ! t ! h ! w \<noteq>
           replicate (length (L ! b ! t ! h ! w)) 0"
proof -
  let ?row = "shape_probs beta (shift_logits zm L) ! b ! t ! h ! w"
  have ne: "map (\<lambda>x. x * (case beta of None \<Rightarrow> 1 | Some c \<Rightarrow> c))
              (shift_logits zm L ! b ! t ! h ! w) \<noteq> []"
    using assms(1-5) shift_logits_nth_length [of b L t h w zm] by auto
  have one: "sum_list ?row = 1"
    using sum_softmax [OF ne] by (simp add: shape_probs_nth [OF assms(1-4)])
  have "sum_list (replicate n (0::real)) = 0" for n
    by (induction n) simp_all
  with one have nz: "?row \<noteq> replicate (length (L ! b ! t ! h ! w)) 0"
    by (metis zero_neq_one)
  from assms(6) one nz show ?thesis
    by (simp add: outputs_shapes)
qed

theorem shape_probs_sum_one_witness:
  "shapes_valid (1, 1) [[[[0], [0]]]] = [[[[0]]]] \<and>
   shape_decoder_outputs (\<lambda>a d. ()) (\<lambda>p a d. ()) () [[[[0], [0]]]] (1, 1) [[[[[0, ln 2]]]]]
      True False None [] ''shapes'' = Some (Probs [[[[[1 / 3, 2 / 3]]]]]) \<and>
   sum_list (shape_probs None (shift_logits False [[[[[0, ln 2]]]]]) ! 0 ! 0 ! 0 ! 0) = 1 \<and>
   shape_probs None (shift_logits False [[[[[0, ln 2]]]]]) ! 0 ! 0 ! 0 ! 0 = [1 / 3, 2 / 3]"
proof -
  have p: "shape_probs None (shift_logits False [[[[[0, ln 2]]]]]) = [[[[[1 / 3, 2 / 3]]]]]"
    by (simp add: shape_probs_def shift_logits_def map4_def softmax_def kwargs_get_def)
  have v: "shapes_valid (1, 1) [[[[0], [0]]]] = [[[[0]]]]"
    by (simp add: shapes_valid_def reduce_max_def)
  have "shape_decoder_outputs (\<lambda>a d. ()) (\<lambda>p a d. ()) () [[[[0], [0]]]] (1, 1) [[[[[0, ln 2]]]]]
      True False None [] ''shapes'' = Some (Probs (shape_probs None (shift_logits False [[[[[0, ln 2]]]]]))) \<and>
    sum_list (shape_probs None (shift_logits False [[[[[0, ln 2]]]]]) ! 0 ! 0 ! 0 ! 0) = 1 \<and>
    shape_probs None (shift_logits False [[[[[0, ln 2]]]]]) ! 0 ! 0 ! 0 ! 0 \<noteq>
      replicate (length ([[[[[0, ln (2::real)]]]]] ! 0 ! 0 ! 0 ! (0::nat))) 0"
    by (rule shape_probs_sum_one) simp_all
  with p v show ?thesis by simp
qed

text \<open>
  With two nodes that are both invalid, \<^verbatim>\<open>shapes_valid\<close> is 0 at the pixel and
  \<open>shape_probs\<close> is (1/2, 1/2) there, not the zero vector.
\<close>

theorem shape_probs_zero_counterexample:
  "shapes_valid (1, 1) [[[[0], [0]]]] ! 0 ! 0 ! 0 ! 0 = 0 \<and>
   shape_probs None (shift_logits False [[[[[0, 0]]]]]) ! 0 ! 0 ! 0 ! 0 = [1 / 2, 1 / 2] \<and>
   shape_probs None (shift_logits False [[[[[0, 0]]]]]) ! 0 ! 0 ! 0 ! 0 \<noteq> [0, 0]"
  by (simp add: shape_probs_def shift_logits_def map4_def softmax_def kwargs_get_def
      shapes_valid_def reduce_max_def)



subsection \<open>Decoding one sampled position\<close>

lemma ebind_simps [simp]: "ebind (Inr x) f = f x" "ebind (Inl e) f = Inl e"
  by (simp_all add: ebind_def)

lemma bcast_mul_scalar: "bcast_mul xs [c] = Inr (map (\<lambda>x. x * c) xs)"
  by (cases xs; cases "tl xs") (auto simp: bcast_mul_def)

lemma gather_node_in_range:
  "0 \<le> n \<Longrightarrow> nat n < length nodes \<Longrightarrow> gather_node nodes n = Inr (nodes ! nat n)"
  by (simp add: gather_node_def)

lemma offsets_ok:
  "length inds = 2 \<Longrightarrow> length centroid = 2 \<Longrightarrow>
   \<exists>dH dW. offsets H W inds centroid = Inr (dH, dW) \<and>
     (1 < H \<longrightarrow> dH \<noteq> None) \<and> (1 < W \<longrightarrow> dW \<noteq> None)"
  by (cases inds; cases "tl inds"; cases centroid; cases "tl centroid")
     (auto simp: offsets_def offset_def)

lemma finite_deltas_constant: "finite_deltas (deltas ''constant'' dH dW) = Inr [1]"
  by (simp add: finite_deltas_def deltas_def)

lemma finite_deltas_ok:
  "n_coeffs_per_dim method = Inr k \<Longrightarrow>
   \<exists>dl. finite_deltas (deltas method (Some a) (Some b)) = Inr dl \<and> length dl = 1 + k"
  by (auto simp: finite_deltas_def deltas_def fmul_def n_coeffs_per_dim_def split: if_splits)

lemma assign_dims_keys: "map fst (fst (assign_dims m u attrs)) = map fst attrs"
  by (induction m u attrs rule: assign_dims.induct) (auto simp: Let_def split: prod.splits)

lemma assign_dims_mem:
  "(attr, s, e, f) \<in> set (fst (assign_dims m u attrs)) \<Longrightarrow>
   u \<le> s \<and> e \<le> snd (assign_dims m u attrs) \<and> (\<exists>n. e = s + n * m \<and> (attr, n, f) \<in> set attrs)"
proof (induction m u attrs rule: assign_dims.induct)
  case (2 m u a dims rest)
  obtain n g where dims: "dims = (n, g)" by (cases dims)
  obtain more total where rec: "assign_dims m (u + n * m) rest = (more, total)"
    by (cases "assign_dims m (u + n * m) rest")
  have mono: "u + n * m \<le> total"
  proof -
    have "\<And>v xs. v \<le> snd (assign_dims m v xs)"
    proof -
      fix v xs show "v \<le> snd (assign_dims m v xs)"
        by (induction m v xs rule: assign_dims.induct)
           (auto simp: Let_def parse_dims_def split: prod.splits)
    qed
    from this [of "u + n * m" rest] rec show ?thesis by simp
  qed
  from "2.prems" dims rec
  consider "attr = a" "s = u" "e = u + n * m" "f = g" | "(attr, s, e, f) \<in> set more"
    by (auto simp: Let_def parse_dims_def)
  then show ?case
  proof cases
    case 1
    with dims rec mono show ?thesis by (auto simp: Let_def parse_dims_def)
  next
    case 2
    with "2.IH" [of "parse_dims dims u m"] dims rec
    have "u + n * m \<le> s \<and> e \<le> total \<and> (\<exists>k. e = s + k * m \<and> (attr, k, f) \<in> set rest)"
      by (simp add: parse_dims_def)
    with dims rec show ?thesis by (auto simp: Let_def parse_dims_def)
  qed
qed simp

lemma assign_dims_complete:
  "(attr, n, f) \<in> set attrs \<Longrightarrow> \<exists>s. (attr, s, s + n * m, f) \<in> set (fst (assign_dims m u attrs))"
proof (induction m u attrs rule: assign_dims.induct)
  case (2 m u a dims rest)
  obtain k g where dims: "dims = (k, g)" by (cases dims)
  obtain more total where rec: "assign_dims m (u + k * m) rest = (more, total)"
    by (cases "assign_dims m (u + k * m) rest")
  from "2.prems" dims consider "attr = a" "n = k" "f = g" | "(attr, n, f) \<in> set rest" by auto
  then show ?case
  proof cases
    case 1
    with dims rec show ?thesis by (auto simp: Let_def parse_dims_def)
  next
    case 2
    with "2.IH" [of "parse_dims dims u m"] dims rec
    obtain s where "(attr, s, s + n * m, f) \<in> set more" by (auto simp: parse_dims_def)
    with dims rec show ?thesis by (auto simp: Let_def parse_dims_def)
  qed
qed simp

lemma render_attrs_at_ok:
  "(\<And>a. a \<in> set names \<Longrightarrow> render_attr_at pd k dl lv a = Inr (g a)) \<Longrightarrow>
   render_attrs_at pd k dl lv names = Inr (map (\<lambda>a. (a, g a)) names)"
  by (induction names) simp_all

lemma render_attrs_at_explicit:
  assumes d: "distinct (map fst pd)"
    and r: "\<And>a s e f. (a, s, e, f) \<in> set pd \<Longrightarrow> render_attr_at pd k dl lv a = Inr (F a s e f)"
  shows "render_attrs_at pd k dl lv (map fst pd) =
           Inr (map (\<lambda>(a, s, e, f). (a, F a s e f)) pd)"
proof -
  let ?g = "\<lambda>a. case map_of pd a of Some (s, e, f) \<Rightarrow> F a s e f | None \<Rightarrow> []"
  have g: "?g a = F a s e f" if "(a, s, e, f) \<in> set pd" for a s e f
    using map_of_is_SomeI [OF d that] by simp
  have "render_attr_at pd k dl lv a = Inr (?g a)" if "a \<in> set (map fst pd)" for a
  proof -
    from that obtain s e f where m: "(a, s, e, f) \<in> set pd" by auto
    from r [OF m] g [OF m] show ?thesis by simp
  qed
  then have "render_attrs_at pd k dl lv (map fst pd) = Inr (map (\<lambda>a. (a, ?g a)) (map fst pd))"
    by (rule render_attrs_at_ok)
  also have "map (\<lambda>a. (a, ?g a)) (map fst pd) = map (\<lambda>(a, s, e, f). (a, F a s e f)) pd"
    by (auto simp: comp_def dest!: map_of_is_SomeI [OF d])
  finally show ?thesis .
qed

lemma tf_split_one: "tf_split v (Suc 0) = Inr [v]"
  by (simp add: tf_split_def)

lemma render_attr_at_constant:
  assumes "map_of pd attr = Some (s, e, f)"
  shows "render_attr_at pd 0 [1] lv attr = Inr (f (take (e - s) (drop s lv)))"
  using assms
  by (simp add: render_attr_at_def get_tensor_from_attrs_def tf_split_one)

lemma add_n_zeros:
  "ps \<noteq> [] \<Longrightarrow> (\<forall>p \<in> set ps. p = replicate n 0) \<Longrightarrow> add_n ps = replicate n 0"
proof (induction ps rule: add_n.induct)
  case (3 v w vs)
  then have "add_n (w # vs) = replicate n 0" by simp
  moreover from 3 have "v = replicate n 0" by simp
  ultimately show ?case by (simp del: add_n.simps(2))
qed simp_all

lemma render_attr_at_zero:
  assumes m: "map_of pd attr = Some (s, s + n * (1 + k), f)"
    and fit: "s + n * (1 + k) \<le> D" and dl: "length dl = 1 + k"
  shows "render_attr_at pd k dl (replicate D 0) attr = Inr (f (replicate n 0))"
proof -
  let ?v = "replicate (n * (1 + k)) (0::real)"
  have sl: "get_tensor_from_attrs pd (replicate D 0) attr = Inr ?v"
  proof -
    from fit have "n + n * k \<le> D - s" by simp
    with m show ?thesis by (simp add: get_tensor_from_attrs_def min_absorb1)
  qed
  have piece: "take n (drop (i * n) ?v) = replicate n 0" if "i < 1 + k" for i
  proof -
    from that have "i \<le> k" by simp
    then have a: "i * n \<le> k * n" by (rule mult_le_mono1)
    have b: "n * k = k * n" by (rule mult.commute)
    have "n \<le> n + n * k - i * n" unfolding b using a by linarith
    then show ?thesis by (simp add: min_absorb1)
  qed
  have len: "length ?v = n * (1 + k)" by (simp only: length_replicate)
  have dv: "length ?v div (1 + k) = n"
    unfolding len by (rule nonzero_mult_div_cancel_right) simp
  have md: "length ?v mod (1 + k) = 0"
    unfolding len by (rule mod_mult_self2_is_0)
  have pieces: "map (\<lambda>i. take n (drop (i * n) ?v)) [0..<1 + k] = replicate (1 + k) (replicate n 0)"
  proof -
    have "map (\<lambda>i. take n (drop (i * n) ?v)) [0..<1 + k] = map (\<lambda>i. replicate n 0) [0..<1 + k]"
      using piece by (intro map_cong) auto
    also have "\<dots> = replicate (1 + k) (replicate n 0)"
      by (simp add: map_replicate_const)
    finally show ?thesis .
  qed
  have "tf_split ?v (1 + k) = Inr (map (\<lambda>i. take n (drop (i * n) ?v)) [0..<1 + k])"
    by (simp only: tf_split_def dv md) simp
  then have sp: "tf_split ?v (1 + k) = Inr (replicate (1 + k) (replicate n 0))"
    by (simp only: pieces)
  let ?scaled = "map2 (\<lambda>av d. map (\<lambda>x. x * d) av) (replicate (1 + k) (replicate n (0::real))) dl"
  have ne: "?scaled \<noteq> []" using dl by (cases dl) auto
  have all0: "\<forall>p \<in> set ?scaled. p = replicate n 0"
  proof
    fix p assume "p \<in> set ?scaled"
    then obtain av d where in_zip: "(av, d) \<in> set (zip (replicate (1 + k) (replicate n (0::real))) dl)"
      and p: "p = map (\<lambda>x. x * d) av" by auto
    from in_zip have "av \<in> set (replicate (1 + k) (replicate n (0::real)))"
      by (rule set_zip_leftD)
    then have "av = replicate n 0" by auto
    with p show "p = replicate n 0" by simp
  qed
  have "add_n ?scaled = replicate n 0"
    by (rule add_n_zeros [OF ne all0])
  with sl sp m show ?thesis
    by (simp add: render_attr_at_def)
qed

lemma n_coeffs_constant: "n_coeffs_per_dim ''constant'' = Inr 0"
  by (simp add: n_coeffs_per_dim_def)

lemma decode_sample_unfold:
  assumes seg: "0 \<le> segment" "nat segment < length node_hws" "nat segment < length latent_vec"
      "nat segment < length valid_nodes"
    and shp: "length (node_hws ! nat segment) = 2" "length spatial_inds = 2"
    and val: "valid_nodes ! nat segment = [v]" "valid_segment = [vs]"
    and k: "n_coeffs_per_dim method = Inr k"
    and fin: "method = ''constant'' \<or> (1 < H \<and> 1 < W)"
  shows "\<exists>dl. length dl = 1 + k \<and> (method = ''constant'' \<longrightarrow> dl = [1]) \<and>
          decode_sample method attrs H W node_hws latent_vec valid_nodes spatial_inds
            segment valid_segment =
          ebind (render_attrs_at (fst (assign_dims (1 + k) 0 attrs)) k dl
                   (map (\<lambda>x. x * (v * vs)) (latent_vec ! nat segment)) (map fst attrs))
            (\<lambda>attrs. Inr \<lparr>sampled_hw_inds = spatial_inds, sampled_pred_attrs = attrs,
                 sampled_valid_attrs = [v * vs]\<rparr>)"
proof -
  from offsets_ok [OF shp(2) shp(1), of H W] obtain dH dW
    where off: "offsets H W spatial_inds (node_hws ! nat segment) = Inr (dH, dW)"
      and fH: "1 < H \<longrightarrow> dH \<noteq> None" and fW: "1 < W \<longrightarrow> dW \<noteq> None" by blast
  have vv: "bcast_mul (valid_nodes ! nat segment) valid_segment = Inr [v * vs]"
    by (simp add: val bcast_mul_def)
  have "\<exists>dl. finite_deltas (deltas method dH dW) = Inr dl \<and> length dl = 1 + k \<and>
          (method = ''constant'' \<longrightarrow> dl = [1])"
  proof (cases "method = ''constant''")
    case True
    with k have "k = 0" by (simp add: n_coeffs_per_dim_def)
    with True show ?thesis by (simp add: finite_deltas_constant)
  next
    case False
    with fin fH fW obtain a b where "dH = Some a" "dW = Some b" by auto
    with finite_deltas_ok [OF k, of a b] False show ?thesis by auto
  qed
  then obtain dl where dl: "finite_deltas (deltas method dH dW) = Inr dl" "length dl = 1 + k"
    "method = ''constant'' \<longrightarrow> dl = [1]" by blast
  show ?thesis
    apply (rule exI [of _ dl])
    apply (simp add: decode_sample_def gather_node_in_range seg off vv bcast_mul_scalar k dl Let_def)
    done
qed

text \<open>
  C5 (as the code has it). With \<^verbatim>\<open>method='constant'\<close> the decoded value of an attribute
  at a sampled position is the attribute's post-processing function applied to the
  owning node's bias coefficients (the attribute's slice of the latent vector) times the
  validity at that position, for a latent vector that holds all the coefficients. The
  offsets from the centroid, the sampled pixel and the image size do not occur in it.
\<close>

theorem constant_decodes_postprocessed_bias:
  assumes "0 \<le> segment" and "nat segment < length node_hws"
    and "nat segment < length latent_vec" and "nat segment < length valid_nodes"
    and "length (node_hws ! nat segment) = 2" and "length spatial_inds = 2"
    and "valid_nodes ! nat segment = [v]" and "valid_segment = [vs]"
    and "distinct (map fst attrs)"
    and "snd (assign_dims 1 0 attrs) \<le> length (latent_vec ! nat segment)"
  shows "decode_sample ''constant'' attrs H W node_hws latent_vec valid_nodes spatial_inds
            segment valid_segment =
         Inr \<lparr>sampled_hw_inds = spatial_inds,
              sampled_pred_attrs =
                map (\<lambda>(attr, s, e, func).
                       (attr, func (map (\<lambda>x. x * (v * vs))
                                (take (e - s) (drop s (latent_vec ! nat segment))))))
                  (fst (assign_dims 1 0 attrs)),
              sampled_valid_attrs = [v * vs]\<rparr>"
proof -
  let ?pd = "fst (assign_dims 1 0 attrs)"
  let ?lv = "map (\<lambda>x. x * (v * vs)) (latent_vec ! nat segment)"
  from decode_sample_unfold [OF assms(1-8) n_coeffs_constant, of H W attrs]
  have dec:
    "decode_sample ''constant'' attrs H W node_hws latent_vec valid_nodes spatial_inds
            segment valid_segment =
          ebind (render_attrs_at ?pd 0 [1] ?lv (map fst attrs))
            (\<lambda>attrs. Inr \<lparr>sampled_hw_inds = spatial_inds, sampled_pred_attrs = attrs,
                 sampled_valid_attrs = [v * vs]\<rparr>)"
    by auto
  have keys: "map fst ?pd = map fst attrs" by (rule assign_dims_keys)
  have d: "distinct (map fst ?pd)" unfolding keys by (rule assms(9))
  have "render_attrs_at ?pd 0 [1] ?lv (map fst ?pd) =
          Inr (map (\<lambda>(attr, s, e, func). (attr, func (take (e - s) (drop s ?lv)))) ?pd)"
    by (rule render_attrs_at_explicit [OF d])
       (rule render_attr_at_constant, rule map_of_is_SomeI [OF d])
  then have "render_attrs_at ?pd 0 [1] ?lv (map fst attrs) =
          Inr (map (\<lambda>(attr, s, e, func).
                       (attr, func (map (\<lambda>x. x * (v * vs))
                                (take (e - s) (drop s (latent_vec ! nat segment)))))) ?pd)"
    by (simp only: keys take_map drop_map)
  then show ?thesis
    by (simp only: dec ebind_simps)
qed

theorem constant_decodes_postprocessed_bias_witness:
  "decode_sample ''constant'' (DEFAULT_PRED_DIMS id) 4 4 [[0, 0], [1 / 2, 1 / 2]]
      [[9, 9, 9, 9, 9, 9, 9], [- 3, 1, 2, 300, 0, 0, 2]] [[1], [1 / 2]] [3, 0] 1 [1] =
     Inr \<lparr>sampled_hw_inds = [3, 0],
          sampled_pred_attrs = [(''pred_depths'', [- 3 / 2]), (''pred_images'', [1 / 2, 1, 100]),
                                (''pred_normals'', [0, 0, 1])],
          sampled_valid_attrs = [1 / 2]\<rparr>"
proof -
  have "decode_sample ''constant'' (DEFAULT_PRED_DIMS id) 4 4 [[0, 0], [1 / 2, 1 / 2]]
      [[9, 9, 9, 9, 9, 9, 9], [- 3, 1, 2, 300, 0, 0, 2]] [[1], [1 / 2]] [3, 0] 1 [1] =
     Inr \<lparr>sampled_hw_inds = [3, 0],
          sampled_pred_attrs =
            map (\<lambda>(attr, s, e, func).
                   (attr, func (map (\<lambda>x. x * (1 / 2 * 1))
                      (take (e - s) (drop s ([[9, 9, 9, 9, 9, 9, 9], [- 3, 1, 2, 300, 0, 0, 2]] ! nat 1)))))) 
              (fst (assign_dims 1 0 (DEFAULT_PRED_DIMS id))),
          sampled_valid_attrs = [1 / 2 * 1]\<rparr>"
    by (rule constant_decodes_postprocessed_bias [where v = "1 / 2" and vs = 1])
       (simp_all add: DEFAULT_PRED_DIMS_def parse_dims_def)
  then show ?thesis
    by (simp add: DEFAULT_PRED_DIMS_def parse_dims_def l2_normalize_def clip_by_value_def)
qed

text \<open>
  The decoded value is not the bias coefficient itself: a valid node with depth
  coefficient 1/2 decodes to \<^verbatim>\<open>pred_depths\<close> = -1/10 under the default post-processing
  \<^verbatim>\<open>tf.minimum(z, -0.1)\<close>.
\<close>

theorem constant_bias_counterexample:
  "decode_sample ''constant'' (DEFAULT_PRED_DIMS id) 4 4 [[0, 0]] [[1 / 2, 0, 0, 0, 0, 0, 1]] [[1]]
      [1, 2] 0 [1] =
     Inr \<lparr>sampled_hw_inds = [1, 2],
          sampled_pred_attrs = [(''pred_depths'', [- 1 / 10]), (''pred_images'', [0, 0, 0]),
                                (''pred_normals'', [0, 0, 1])],
          sampled_valid_attrs = [1]\<rparr> \<and>
   take 1 (drop 0 [1 / 2, 0, 0, 0, 0, 0, 1 :: real]) \<noteq> [- 1 / 10]"
  by (simp add: decode_sample_def gather_node_def offsets_def offset_def bcast_mul_def
      n_coeffs_per_dim_def DEFAULT_PRED_DIMS_def parse_dims_def render_attr_at_def
      get_tensor_from_attrs_def tf_split_def deltas_def finite_deltas_def l2_normalize_def
      clip_by_value_def)

lemma assign_dims_widths:
  "0 < m \<Longrightarrow> map (\<lambda>(a, s, e, f). (a, (e - s) div m, f)) (fst (assign_dims m u attrs)) = attrs"
  by (induction m u attrs rule: assign_dims.induct)
     (auto simp: Let_def parse_dims_def split: prod.splits)

text \<open>
  C6 (as the code has it). At a sampled position whose node or segment is invalid
  (validity 0), for each of the three methods and a latent vector that holds all the
  coefficients, the coefficients are zeroed and not dropped: every attribute is decoded,
  to its post-processing function applied to the zero vector, and the returned validity
  is 0. The linear and the quadratic method need an image of height and width above 1:
  at height or width 1 line 186 divides by zero and the offsets are not finite.
\<close>

theorem invalid_sample_decodes_postprocessed_zero:
  assumes "0 \<le> segment" and "nat segment < length node_hws"
    and "nat segment < length latent_vec" and "nat segment < length valid_nodes"
    and "length (node_hws ! nat segment) = 2" and "length spatial_inds = 2"
    and "valid_nodes ! nat segment = [v]" and "valid_segment = [vs]"
    and "n_coeffs_per_dim method = Inr k"
    and "distinct (map fst attrs)"
    and "snd (assign_dims (1 + k) 0 attrs) \<le> length (latent_vec ! nat segment)"
    and "v = 0 \<or> vs = 0"
    and "method = ''constant'' \<or> (1 < H \<and> 1 < W)"
  shows "decode_sample method attrs H W node_hws latent_vec valid_nodes spatial_inds
            segment valid_segment =
         Inr \<lparr>sampled_hw_inds = spatial_inds,
              sampled_pred_attrs = map (\<lambda>(attr, n, func). (attr, func (replicate n 0))) attrs,
              sampled_valid_attrs = [0]\<rparr>"
proof -
  let ?pd = "fst (assign_dims (1 + k) 0 attrs)"
  let ?D = "length (latent_vec ! nat segment)"
  have zero: "v * vs = 0" using assms(12) by auto
  have lv: "map (\<lambda>x. x * (v * vs)) (latent_vec ! nat segment) = replicate ?D 0"
    by (simp add: zero map_replicate_const)
  from decode_sample_unfold [OF assms(1-9) assms(13), of attrs]
  obtain dl where len: "length dl = 1 + k" and dec0:
    "decode_sample method attrs H W node_hws latent_vec valid_nodes spatial_inds
            segment valid_segment =
          ebind (render_attrs_at ?pd k dl
                   (map (\<lambda>x. x * (v * vs)) (latent_vec ! nat segment)) (map fst attrs))
            (\<lambda>attrs. Inr \<lparr>sampled_hw_inds = spatial_inds, sampled_pred_attrs = attrs,
                 sampled_valid_attrs = [v * vs]\<rparr>)"
    by auto
  note dec = dec0 [unfolded lv, unfolded zero]
  have keys: "map fst ?pd = map fst attrs" by (rule assign_dims_keys)
  have d: "distinct (map fst ?pd)" unfolding keys by (rule assms(10))
  have one: "render_attr_at ?pd k dl (replicate ?D 0) a =
               Inr (f (replicate ((e - s) div (1 + k)) 0))"
    if mem: "(a, s, e, f) \<in> set ?pd" for a s e f
  proof -
    from assign_dims_mem [OF mem] obtain n where
      e: "e = s + n * (1 + k)" and le: "e \<le> snd (assign_dims (1 + k) 0 attrs)" by auto
    have m: "map_of ?pd a = Some (s, s + n * (1 + k), f)"
      using map_of_is_SomeI [OF d mem] e by simp
    have fit: "s + n * (1 + k) \<le> ?D" using le e assms(11) by simp
    have "e - s = n * (1 + k)" unfolding e by (rule add_diff_cancel_left')
    then have n: "(e - s) div (1 + k) = n"
      by (simp only: ) (rule nonzero_mult_div_cancel_right, simp)
    show ?thesis
      unfolding n by (rule render_attr_at_zero [OF m fit len])
  qed
  have "render_attrs_at ?pd k dl (replicate ?D 0) (map fst ?pd) =
          Inr (map (\<lambda>(a, s, e, f). (a, f (replicate ((e - s) div (1 + k)) 0))) ?pd)"
    by (rule render_attrs_at_explicit [OF d one])
  also have "map (\<lambda>(a, s, e, f). (a, f (replicate ((e - s) div (1 + k)) 0))) ?pd =
        map (\<lambda>(attr, n, func). (attr, func (replicate n 0)))
          (map (\<lambda>(a, s, e, f). (a, (e - s) div (1 + k), f)) ?pd)"
    by (simp add: comp_def case_prod_unfold)
  also have "map (\<lambda>(a, s, e, f). (a, (e - s) div (1 + k), f)) ?pd = attrs"
    by (rule assign_dims_widths) simp
  finally show ?thesis
    by (simp only: dec keys ebind_simps)
qed

theorem invalid_sample_decodes_postprocessed_zero_witness:
  "decode_sample ''linear'' (DEFAULT_PRED_DIMS id) 4 4 [[0, 0]] [map real [1..<22]] [[1]]
      [1, 2] 0 [0] =
     Inr \<lparr>sampled_hw_inds = [1, 2],
          sampled_pred_attrs = [(''pred_depths'', [- 1 / 10]), (''pred_images'', [0, 0, 0]),
                                (''pred_normals'', [0, 0, 0])],
          sampled_valid_attrs = [0]\<rparr>"
proof -
  have k: "n_coeffs_per_dim ''linear'' = Inr 2" by (simp add: n_coeffs_per_dim_def)
  have "decode_sample ''linear'' (DEFAULT_PRED_DIMS id) 4 4 [[0, 0]] [map real [1..<22]] [[1]]
      [1, 2] 0 [0] =
     Inr \<lparr>sampled_hw_inds = [1, 2],
          sampled_pred_attrs =
            map (\<lambda>(attr, n, func). (attr, func (replicate n 0))) (DEFAULT_PRED_DIMS id),
          sampled_valid_attrs = [0]\<rparr>"
    by (rule invalid_sample_decodes_postprocessed_zero [OF _ _ _ _ _ _ _ _ k, where v = 1 and vs = 0])
       (simp_all add: DEFAULT_PRED_DIMS_def parse_dims_def)
  moreover have "replicate 3 (0::real) = [0, 0, 0]"
    by (simp add: numeral_3_eq_3)
  ultimately show ?thesis
    by (simp add: DEFAULT_PRED_DIMS_def l2_normalize_def clip_by_value_def)
qed

text \<open>
  The decoded prediction of an invalid node is not zero for every attribute: the default
  post-processing of \<^verbatim>\<open>pred_depths\<close> maps 0 to -1/10.
\<close>

theorem invalid_zero_counterexample:
  "decode_sample ''constant'' (DEFAULT_PRED_DIMS id) 4 4 [[0, 0]] [[1 / 2, 0, 0, 0, 0, 0, 1]] [[0]]
      [1, 2] 0 [1] =
     Inr \<lparr>sampled_hw_inds = [1, 2],
          sampled_pred_attrs = [(''pred_depths'', [- 1 / 10]), (''pred_images'', [0, 0, 0]),
                                (''pred_normals'', [0, 0, 0])],
          sampled_valid_attrs = [0]\<rparr> \<and>
   [- 1 / 10 :: real] \<noteq> [0]"
  by (simp add: decode_sample_def gather_node_def offsets_def offset_def bcast_mul_def
      n_coeffs_per_dim_def DEFAULT_PRED_DIMS_def parse_dims_def render_attr_at_def
      get_tensor_from_attrs_def tf_split_def deltas_def finite_deltas_def l2_normalize_def
      clip_by_value_def)

text \<open>
  On an image of height 1 the offsets of line 186 are not finite, and so are the
  predictions of the linear method, also at an invalid position.
\<close>

lemma decode_sample_height_one:
  "decode_sample ''linear'' (DEFAULT_PRED_DIMS id) 1 4 [[0, 0]] [map real [1..<22]] [[1]]
      [0, 2] 0 [0] = Inl NotFinite"
  by (simp add: decode_sample_def gather_node_def offsets_def offset_def bcast_mul_def
      n_coeffs_per_dim_def deltas_def finite_deltas_def fmul_def)

subsection \<open>The layout after a head has registered its ranges\<close>








lemma layout_insert_conflict:
  "nm \<in> fst ` set L \<Longrightarrow> layout_insert nm r L = Inl ValueError"
  by (simp add: layout_insert_def)

lemma layout_insert_overlap:
  "(n0, r0) \<in> set L \<Longrightarrow> overlap r r0 \<Longrightarrow> layout_insert nm r L = Inl ValueError"
  by (auto simp: layout_insert_def list_ex_iff)








text \<open>
  With the default \<^verbatim>\<open>depths_dims\<close> line 270 assigns the name that line 269 has just
  read: on this layout the call raises, a KeyError at line 269 or the name conflict at
  line 270, and the layout is left as it was.
\<close>

lemma register_pred_depths_default:
  "fst (register_pred_depths Dims DEFAULT_DEPTHS_DIMS) = Dims \<and>
   snd (register_pred_depths Dims DEFAULT_DEPTHS_DIMS) =
     (if ''pred_depths'' \<in> fst ` set Dims then Some ValueError else Some KeyError)"
proof (cases "map_of Dims ''pred_depths''")
  case None
  then have "''pred_depths'' \<notin> fst ` set Dims" by (simp add: map_of_eq_None_iff)
  with None show ?thesis
    by (simp add: register_pred_depths_def DEFAULT_DEPTHS_DIMS_def layout_get_def)
next
  case (Some r)
  then have "''pred_depths'' \<in> fst ` set Dims"
    by (metis map_of_eq_None_iff option.distinct(1))
  with Some show ?thesis
    by (simp add: register_pred_depths_def DEFAULT_DEPTHS_DIMS_def layout_get_def
        layout_insert_conflict)
qed

text \<open>
  A non-empty sub-range inside the depth attribute overlaps that attribute, and this
  layout refuses it.
\<close>

lemma register_pred_depths_subrange:
  assumes "map_of Dims nm = Some (s, e)" and "0 \<le> a" and "a < b" and "b \<le> e - s"
  shows "register_pred_depths Dims (nm, (a, b) # rs) = (Dims, Some ValueError)"
proof -
  from assms(1) have "(nm, s, e) \<in> set Dims" by (rule map_of_SomeD)
  moreover have "overlap (s + a, s + b) (s, e)" using assms(2-4) by (simp add: overlap_def)
  ultimately have "layout_insert ''pred_depths'' (s + a, s + b) Dims = Inl ValueError"
    by (rule layout_insert_overlap)
  with assms(1) show ?thesis by (simp add: register_pred_depths_def layout_get_def)
qed












subsection \<open>The number of sampled positions\<close>

lemma num_samples_clamped:
  "num_samples n H W \<le> H * W \<and> (H * W \<le> n \<longrightarrow> num_samples n H W = H * W) \<and>
   (n \<le> H * W \<longrightarrow> num_samples n H W = n)"
  by (auto simp: num_samples_def)

end
